theory Spec2Isabelle
  imports Complex_Main "HOL-Library.Multiset"
begin

section \<open>JavaScript numbers and strings\<close>

text \<open>
  The functions of \<^verbatim>\<open>src/utilities.ts\<close> compute with JavaScript numbers. Number inputs
  (device sizes, pixel densities, candidate widths, the filter factor) are finite and are
  modelled as exact rationals: rounding and overflow of IEEE doubles are not modelled.
  The values that only arise as results, \<^verbatim>\<open>NaN\<close> (from \<^verbatim>\<open>Number\<close> of a string that is not a
  number, from \<^verbatim>\<open>0/0\<close> or \<^verbatim>\<open>undefined/x\<close>) and the infinities (from \<^verbatim>\<open>x/0\<close> and from
  \<^verbatim>\<open>Number("Infinity")\<close>), are constructors of their own. Equality of the datatype is the
  equality a \<^verbatim>\<open>Set\<close> uses (\<^verbatim>\<open>NaN\<close> equals itself, there is one zero).
  Strings are lists of characters; the characters that matter to the code (digits, the dot,
  white space, the letters of the units) are ASCII.
\<close>

datatype number = Fin rat | PosInf | NegInf | NaN

text \<open>The sign of a number that is not \<^verbatim>\<open>NaN\<close>, as \<open>-1\<close>, \<open>0\<close> or \<open>1\<close>.\<close>

fun sign :: "number \<Rightarrow> rat" where
  "sign (Fin x) = sgn x"
| "sign PosInf = 1"
| "sign NegInf = -1"
| "sign NaN = 0"

definition of_sign :: "rat \<Rightarrow> number" where
  "of_sign s = (if s = 0 then NaN else if 0 < s then PosInf else NegInf)"

text \<open>\<^verbatim>\<open>a * b\<close>: \<^verbatim>\<open>NaN\<close> is contagious and \<^verbatim>\<open>Infinity * 0\<close> is \<^verbatim>\<open>NaN\<close>.\<close>

fun js_mul :: "number \<Rightarrow> number \<Rightarrow> number" where
  "js_mul (Fin x) (Fin y) = Fin (x * y)"
| "js_mul NaN b = NaN"
| "js_mul a NaN = NaN"
| "js_mul a b = of_sign (sign a * sign b)"

text \<open>
  \<^verbatim>\<open>a / b\<close>: a finite non-zero number over zero is an infinity of its sign, \<^verbatim>\<open>0/0\<close> and
  \<^verbatim>\<open>Infinity/Infinity\<close> are \<^verbatim>\<open>NaN\<close>, a finite number over an infinity is zero.
\<close>

fun js_div :: "number \<Rightarrow> number \<Rightarrow> number" where
  "js_div (Fin x) (Fin y) = (if y = 0 then of_sign (sgn x) else Fin (x / y))"
| "js_div NaN b = NaN"
| "js_div a NaN = NaN"
| "js_div (Fin x) b = Fin 0"
| "js_div a (Fin y) = of_sign (sign a * (if y < 0 then -1 else 1))"
| "js_div a b = NaN"

text \<open>\<^verbatim>\<open>a < b\<close>, \<^verbatim>\<open>a <= b\<close> and \<^verbatim>\<open>a >= b\<close>: every comparison with \<^verbatim>\<open>NaN\<close> is false.\<close>

fun js_lt :: "number \<Rightarrow> number \<Rightarrow> bool" where
  "js_lt (Fin x) (Fin y) = (x < y)"
| "js_lt NaN b = False"
| "js_lt a NaN = False"
| "js_lt a PosInf = (a \<noteq> PosInf)"
| "js_lt NegInf b = (b \<noteq> NegInf)"
| "js_lt a b = False"

definition js_le :: "number \<Rightarrow> number \<Rightarrow> bool" where
  "js_le a b \<longleftrightarrow> a \<noteq> NaN \<and> b \<noteq> NaN \<and> (js_lt a b \<or> a = b)"

definition js_ge :: "number \<Rightarrow> number \<Rightarrow> bool" where
  "js_ge a b \<longleftrightarrow> js_le b a"

text \<open>\<^verbatim>\<open>Math.ceil\<close>.\<close>

fun js_ceil :: "number \<Rightarrow> number" where
  "js_ceil (Fin x) = Fin (of_int \<lceil>x\<rceil>)"
| "js_ceil a = a"

subsection \<open>\<^verbatim>\<open>Number(string)\<close> on the strings that \<^verbatim>\<open>cssValue\<close> gives it\<close>

definition isDigit :: "char \<Rightarrow> bool" where
  "isDigit c \<longleftrightarrow> c \<in> set ''0123456789''"

text \<open>The class \<^verbatim>\<open>[\d.]\<close> of \<^verbatim>\<open>valueRegex\<close>.\<close>

definition isDigitDot :: "char \<Rightarrow> bool" where
  "isDigitDot c \<longleftrightarrow> isDigit c \<or> c = CHR ''.''"

text \<open>The ASCII white space that \<^verbatim>\<open>Number\<close> strips: tab, LF, VT, FF, CR and space.\<close>

definition isSpace :: "char \<Rightarrow> bool" where
  "isSpace c \<longleftrightarrow> of_char c \<in> {9::nat, 10, 11, 12, 13, 32}"

definition trim :: "string \<Rightarrow> string" where
  "trim s = rev (dropWhile isSpace (rev (dropWhile isSpace s)))"

definition digitVal :: "char \<Rightarrow> nat" where
  "digitVal c = of_char c - 48"

definition decVal :: "string \<Rightarrow> nat" where
  "decVal ds = foldl (\<lambda>n c. 10 * n + digitVal c) 0 ds"

text \<open>
  An unsigned decimal literal without exponent: \<^verbatim>\<open>12\<close>, \<^verbatim>\<open>12.\<close>, \<^verbatim>\<open>12.5\<close> or \<^verbatim>\<open>.5\<close>; anything
  else (a lone dot, two dots, another character) is \<^verbatim>\<open>NaN\<close>.
\<close>

definition decimal :: "string \<Rightarrow> number" where
  "decimal s =
     (let ip = takeWhile isDigit s in
      case dropWhile isDigit s of
        [] \<Rightarrow> if ip = [] then NaN else Fin (of_nat (decVal ip))
      | d # fp \<Rightarrow>
          if d = CHR ''.'' \<and> list_all isDigit fp \<and> (ip \<noteq> [] \<or> fp \<noteq> [])
          then Fin (of_nat (decVal ip) + of_nat (decVal fp) / 10 ^ length fp)
          else NaN)"

text \<open>
  \<^verbatim>\<open>Number(s)\<close>. \<^verbatim>\<open>cssValue\<close> applies it either to the first capture group, which holds
  digits and dots only, or to a string with no digit and no dot at all, so signs in front
  of digits, exponents and radix prefixes never reach it: white space is stripped, the
  empty string is \<open>0\<close>, the literal \<^verbatim>\<open>Infinity\<close> with an optional sign is an infinity, an
  unsigned decimal literal is its value, and every other string is \<^verbatim>\<open>NaN\<close>.
\<close>

definition Number :: "string \<Rightarrow> number" where
  "Number s =
     (let t = trim s in
      if t = [] then Fin 0
      else if t = ''Infinity'' \<or> t = ''+Infinity'' then PosInf
      else if t = ''-Infinity'' then NegInf
      else decimal t)"

section \<open>\<^verbatim>\<open>cssValue\<close>\<close>

text \<open>
  \<^verbatim>\<open>const valueRegex = /([\d.]+)(\D*)/\<close>;
  \<^verbatim>\<open>let match = v.match(valueRegex); if (match) [, value, unit] = match;
  return [Number(value), unit]\<close>.
  The leftmost match starts at the first digit or dot; the first group takes the longest
  run of digits and dots, the second the longest run of non-digits after it. Without a
  digit or dot there is no match, \<^verbatim>\<open>value\<close> stays \<^verbatim>\<open>v\<close> and \<^verbatim>\<open>unit\<close> stays empty.
\<close>

definition cssValue :: "string \<Rightarrow> number \<times> string" where
  "cssValue v =
     (case dropWhile (\<lambda>c. \<not> isDigitDot c) v of
        [] \<Rightarrow> (Number v, '''')
      | m # ms \<Rightarrow>
          (Number (takeWhile isDigitDot (m # ms)),
           takeWhile (\<lambda>c. \<not> isDigit c) (dropWhile isDigitDot (m # ms))))"

section \<open>The data of a sizes query\<close>

text \<open>
  The interfaces \<^verbatim>\<open>MediaCondition\<close>, \<^verbatim>\<open>Size\<close>, \<^verbatim>\<open>Dimension\<close> and \<^verbatim>\<open>Device\<close>. The field
  \<^verbatim>\<open>value\<close> of a condition has the name that \<^verbatim>\<open>deviceWidths\<close> gives it when it takes the
  condition apart, \<open>valueString\<close>.
\<close>

record MediaCondition =
  mediaFeature :: string
  valueString :: string

record Size =
  conditions :: "MediaCondition list"
  width :: string

record Dimension =
  w :: rat
  h :: rat

record Device = Dimension +
  dppx :: "rat list"
  flip :: bool

text \<open>
  What a call can throw: the \<^verbatim>\<open>Error\<close> of \<^verbatim>\<open>deviceWidths\<close> with the unit it rejects, and
  the \<^verbatim>\<open>TypeError\<close> of \<^verbatim>\<open>v.match\<close> when \<^verbatim>\<open>v\<close> is \<^verbatim>\<open>undefined\<close>.
\<close>

datatype error = InvalidQueryUnit string | TypeError

section \<open>\<^verbatim>\<open>deviceWidths\<close>\<close>

text \<open>
  The test of one media condition, \<^verbatim>\<open>match\<close> in the source, for the parsed \<^verbatim>\<open>value\<close>.
\<close>

definition condition_match :: "Device \<Rightarrow> string \<Rightarrow> number \<Rightarrow> bool" where
  "condition_match device feature val \<longleftrightarrow>
     (feature = ''min-width'' \<and> js_ge (Fin (w device)) val) \<or>
     (feature = ''max-width'' \<and> js_le (Fin (w device)) val) \<or>
     (feature = ''min-height'' \<and> js_ge (Fin (h device)) val) \<or>
     (feature = ''max-height'' \<and> js_le (Fin (h device)) val)"

text \<open>
  The inner loop over the conditions of one rule: \<open>Inr True\<close> when it runs to its end
  (\<^verbatim>\<open>break whichSize\<close> follows), \<open>Inr False\<close> at \<^verbatim>\<open>continue whichSize\<close>, \<open>Inl\<close> at the
  \<^verbatim>\<open>throw\<close>.
\<close>

fun conditions_loop :: "Device \<Rightarrow> MediaCondition list \<Rightarrow> error + bool" where
  "conditions_loop device [] = Inr True"
| "conditions_loop device (c # cs) =
     (case cssValue (valueString c) of (val, unit) \<Rightarrow>
        if unit \<noteq> ''px'' then Inl (InvalidQueryUnit unit)
        else if \<not> condition_match device (mediaFeature c) val then Inr False
        else conditions_loop device cs)"

text \<open>
  The loop labelled \<^verbatim>\<open>whichSize\<close>, with the variable \<^verbatim>\<open>imgWidth\<close> passed along: it is
  \<open>None\<close> while unassigned (\<^verbatim>\<open>undefined\<close>), and every rule the loop reaches assigns its
  width before its conditions are looked at.
\<close>

fun whichSize :: "Size list \<Rightarrow> Device \<Rightarrow> string option \<Rightarrow> error + string option" where
  "whichSize [] device imgWidth = Inr imgWidth"
| "whichSize (s # sizes) device imgWidth =
     (case conditions_loop device (conditions s) of
        Inl e \<Rightarrow> Inl e
      | Inr True \<Rightarrow> Inr (Some (width s))
      | Inr False \<Rightarrow> whichSize sizes device (Some (width s)))"

text \<open>
  \<^verbatim>\<open>needWidths.add(x)\<close>: a \<^verbatim>\<open>Set\<close> keeps its elements in insertion order and adds no
  element twice, so it is a list without duplicates.
\<close>

definition Set_add :: "number list \<Rightarrow> number \<Rightarrow> number list" where
  "Set_add s x = (if x \<in> set s then s else s @ [x])"

text \<open>
  The body of the \<^verbatim>\<open>forEach\<close> callback up to \<^verbatim>\<open>Math.ceil\<close>, for a width string that is
  defined.
\<close>

definition scaledWidth :: "Device \<Rightarrow> string \<Rightarrow> rat \<Rightarrow> number" where
  "scaledWidth device imgWidth d =
     (case cssValue imgWidth of (sw, unit) \<Rightarrow>
        js_ceil (js_mul
          (if unit = ''vw'' then js_div (js_mul (Fin (w device)) sw) (Fin 100) else sw)
          (Fin d)))"

text \<open>
  \<^verbatim>\<open>device.dppx.forEach(...)\<close>: each call parses \<^verbatim>\<open>imgWidth\<close> again, and
  \<^verbatim>\<open>cssValue(undefined)\<close> throws a \<^verbatim>\<open>TypeError\<close> at \<^verbatim>\<open>v.match\<close>.
\<close>

fun forEach_dppx ::
  "Device \<Rightarrow> string option \<Rightarrow> rat list \<Rightarrow> number list \<Rightarrow> error + number list" where
  "forEach_dppx device imgWidth [] needWidths = Inr needWidths"
| "forEach_dppx device imgWidth (d # ds) needWidths =
     (case imgWidth of
        None \<Rightarrow> Inl TypeError
      | Some s \<Rightarrow>
          forEach_dppx device imgWidth ds (Set_add needWidths (scaledWidth device s d)))"

text \<open>
  \<^verbatim>\<open>deviceWidths(sizes, device)\<close>; the \<^verbatim>\<open>console.log\<close> before the \<^verbatim>\<open>return\<close> is left out.
\<close>

definition deviceWidths :: "Size list \<Rightarrow> Device \<Rightarrow> error + number list" where
  "deviceWidths sizes device =
     (case whichSize sizes device None of
        Inl e \<Rightarrow> Inl e
      | Inr imgWidth \<Rightarrow> forEach_dppx device imgWidth (dppx device) [])"

text \<open>
  Not part of the source: what the loop over the conditions asks of one condition, namely
  that its value has the unit \<^verbatim>\<open>px\<close> and passes the test of its media feature.
\<close>

definition condition_holds :: "Device \<Rightarrow> MediaCondition \<Rightarrow> bool" where
  "condition_holds device c \<longleftrightarrow>
     (case cssValue (valueString c) of (val, unit) \<Rightarrow>
        unit = ''px'' \<and> condition_match device (mediaFeature c) val)"

section \<open>\<^verbatim>\<open>filterSizes\<close>\<close>

text \<open>
  The function has two signatures, \<^verbatim>\<open>number[]\<close> to \<^verbatim>\<open>number[]\<close> and \<^verbatim>\<open>Dimension[]\<close> to
  \<^verbatim>\<open>Dimension[]\<close>, and one body, which asks each element whether it is a dimension. The loop
  of the body is modelled once, for a list of elements of either kind, with what the body's
  expressions evaluate to for that kind: \<open>truthy x\<close> is the truth value of \<^verbatim>\<open>x\<close> (a number
  is falsy when it is zero, an object never), \<open>wOf x\<close> is \<^verbatim>\<open>isDimension(x) ? x.w : x\<close> and
  \<open>hOf x\<close> is \<^verbatim>\<open>isDimension(x) ? x.h : x\<close>. An index past the end reads \<^verbatim>\<open>undefined\<close>,
  here \<open>None\<close>, which is falsy and is \<^verbatim>\<open>NaN\<close> in a division.
\<close>

text \<open>\<^verbatim>\<open>a && !b\<close>\<close>

definition and_not :: "('a \<Rightarrow> bool) \<Rightarrow> 'a \<Rightarrow> 'a option \<Rightarrow> bool" where
  "and_not truthy a b \<longleftrightarrow>
     truthy a \<and> \<not> (case b of None \<Rightarrow> False | Some y \<Rightarrow> truthy y)"

text \<open>\<^verbatim>\<open>scale1 * scale2\<close>\<close>

definition scale_product :: "('a \<Rightarrow> rat) \<Rightarrow> ('a \<Rightarrow> rat) \<Rightarrow> 'a \<Rightarrow> 'a option \<Rightarrow> number" where
  "scale_product wOf hOf a b =
     (let scale1 = js_div (case b of None \<Rightarrow> NaN | Some y \<Rightarrow> Fin (wOf y)) (Fin (wOf a));
          scale2 = js_div (case b of None \<Rightarrow> NaN | Some y \<Rightarrow> Fin (hOf y)) (Fin (hOf a))
      in js_mul scale1 scale2)"

text \<open>
  \<^verbatim>\<open>for (let i = 0, j = 1; i < sorted.length; ) { ... }\<close> from the state \<open>(i, j, filtered)\<close>;
  \<open>sortedL\<close> is the array \<^verbatim>\<open>sorted\<close> of the source. The loop has no bound of its own, so
  it is a partial function: \<open>None\<close> is a run that never ends, \<open>Some filtered\<close> the list it
  returns.
\<close>

partial_function (option) filter_loop ::
  "('a \<Rightarrow> bool) \<Rightarrow> ('a \<Rightarrow> rat) \<Rightarrow> ('a \<Rightarrow> rat) \<Rightarrow> rat \<Rightarrow> 'a list \<Rightarrow> nat \<Rightarrow> nat \<Rightarrow> 'a list
     \<Rightarrow> 'a list option"
where
  "filter_loop truthy wOf hOf factor sortedL i j filtered =
     (if i < length sortedL then
        let a = sortedL ! i;
            b = (if j < length sortedL then Some (sortedL ! j) else None)
        in if and_not truthy a b then Some (filtered @ [a])
           else if js_lt (scale_product wOf hOf a b) (Fin factor)
           then filter_loop truthy wOf hOf factor sortedL j (j + 1) (filtered @ [a])
           else filter_loop truthy wOf hOf factor sortedL i (j + 1) filtered
      else Some filtered)"

declare filter_loop.simps [code]

text \<open>
  \<^verbatim>\<open>filterSizes(list: number[], factor = 0.8)\<close>. The copy of the list is sorted with the
  comparison \<^verbatim>\<open>(a, b) => b - a\<close>, from large to small; \<^verbatim>\<open>Array.prototype.sort\<close> is stable.
  A factor that is not given is \<open>None\<close>.
\<close>

definition filterSizes :: "rat list \<Rightarrow> rat option \<Rightarrow> rat list option" where
  "filterSizes list factor =
     filter_loop (\<lambda>x. x \<noteq> 0) (\<lambda>x. x) (\<lambda>x. x)
       (case factor of None \<Rightarrow> 4 / 5 | Some f \<Rightarrow> f)
       (sort_key (\<lambda>a. - a) list) 0 1 []"

text \<open>
  \<^verbatim>\<open>filterSizes(list: Dimension[], factor = 0.8)\<close>, sorted with
  \<^verbatim>\<open>(a, b) => b.w * b.h - a.w * a.h\<close>.
\<close>

definition filterSizes_Dimension :: "Dimension list \<Rightarrow> rat option \<Rightarrow> Dimension list option" where
  "filterSizes_Dimension list factor =
     filter_loop (\<lambda>x. True) w h
       (case factor of None \<Rightarrow> 4 / 5 | Some f \<Rightarrow> f)
       (sort_key (\<lambda>a. - (w a * h a)) list) 0 1 []"

section \<open>The loop of \<^verbatim>\<open>filterSizes\<close> as a walk over the sorted list\<close>

text \<open>
  Not part of the source: the list the loop returns, described by recursion over the probes
  that are still ahead of the reference \<open>a\<close> (the elements from index \<open>j\<close> on). The loop is
  shown below to compute exactly this, \<open>None\<close> included.
\<close>

fun walk ::
  "('a \<Rightarrow> bool) \<Rightarrow> ('a \<Rightarrow> rat) \<Rightarrow> ('a \<Rightarrow> rat) \<Rightarrow> rat \<Rightarrow> 'a \<Rightarrow> 'a list \<Rightarrow> 'a list option" where
  "walk truthy wOf hOf factor a [] = (if truthy a then Some [a] else None)"
| "walk truthy wOf hOf factor a (b # bs) =
     (if and_not truthy a (Some b) then Some [a]
      else if js_lt (scale_product wOf hOf a (Some b)) (Fin factor)
      then map_option ((#) a) (walk truthy wOf hOf factor b bs)
      else walk truthy wOf hOf factor a bs)"

text \<open>A falsy reference never passes the scale test, whatever the probe.\<close>

definition falsy_stays :: "('a \<Rightarrow> bool) \<Rightarrow> ('a \<Rightarrow> rat) \<Rightarrow> ('a \<Rightarrow> rat) \<Rightarrow> rat \<Rightarrow> bool" where
  "falsy_stays truthy wOf hOf factor \<longleftrightarrow>
     (\<forall>a b. \<not> truthy a \<longrightarrow> \<not> js_lt (scale_product wOf hOf a b) (Fin factor))"


section \<open>The loop and the walk agree\<close>

lemma filter_loop_Some_truthy:
  assumes "filter_loop truthy wOf hOf factor sortedL i j filtered = Some r"
    and "falsy_stays truthy wOf hOf factor" and "i < length sortedL"
  shows "truthy (sortedL ! i)"
proof -
  have "falsy_stays truthy wOf hOf factor \<longrightarrow> i < length sortedL \<longrightarrow> truthy (sortedL ! i)"
  proof (rule filter_loop.raw_induct[where
        P = "\<lambda>truthy wOf hOf factor sortedL i j filtered r.
               falsy_stays truthy wOf hOf factor \<longrightarrow> i < length sortedL \<longrightarrow> truthy (sortedL ! i)",
        OF _ assms(1)])
    fix loop :: "('a \<Rightarrow> bool) \<Rightarrow> ('a \<Rightarrow> rat) \<Rightarrow> ('a \<Rightarrow> rat) \<Rightarrow> rat \<Rightarrow> 'a list \<Rightarrow> nat \<Rightarrow> nat
        \<Rightarrow> 'a list \<Rightarrow> 'a list option"
      and truthy wOf hOf factor sortedL i j filtered r
    assume IH: "\<And>truthy wOf hOf factor sortedL i j filtered r.
        loop truthy wOf hOf factor sortedL i j filtered = Some r \<Longrightarrow>
        falsy_stays truthy wOf hOf factor \<longrightarrow> i < length sortedL \<longrightarrow> truthy (sortedL ! i)"
      and step: "(if i < length sortedL then
        let a = sortedL ! i;
            b = (if j < length sortedL then Some (sortedL ! j) else None)
        in if and_not truthy a b then Some (filtered @ [a])
           else if js_lt (scale_product wOf hOf a b) (Fin factor)
           then loop truthy wOf hOf factor sortedL j (j + 1) (filtered @ [a])
           else loop truthy wOf hOf factor sortedL i (j + 1) filtered
      else Some filtered) = Some r"
    show "falsy_stays truthy wOf hOf factor \<longrightarrow> i < length sortedL \<longrightarrow> truthy (sortedL ! i)"
    proof (intro impI, rule ccontr)
      assume fs: "falsy_stays truthy wOf hOf factor" and i: "i < length sortedL"
        and f: "\<not> truthy (sortedL ! i)"
      from f have "\<not> and_not truthy (sortedL ! i) b" for b by (simp add: and_not_def)
      moreover from fs f have "\<not> js_lt (scale_product wOf hOf (sortedL ! i) b) (Fin factor)" for b
        by (simp add: falsy_stays_def)
      ultimately have "loop truthy wOf hOf factor sortedL i (j + 1) filtered = Some r"
        using step i by (simp add: Let_def)
      from IH[OF this] fs i f show False by simp
    qed
  qed
  with assms show ?thesis by simp
qed

lemma filter_loop_falsy:
  assumes "falsy_stays truthy wOf hOf factor" "i < length sortedL" "\<not> truthy (sortedL ! i)"
  shows "filter_loop truthy wOf hOf factor sortedL i j filtered = None"
proof (cases "filter_loop truthy wOf hOf factor sortedL i j filtered")
  case (Some r)
  from filter_loop_Some_truthy[OF this assms(1,2)] assms(3) show ?thesis by simp
qed simp

lemma filter_loop_walk:
  assumes "falsy_stays truthy wOf hOf factor"
  shows "i < length sortedL \<Longrightarrow> i < j \<Longrightarrow>
    filter_loop truthy wOf hOf factor sortedL i j filtered =
    map_option ((@) filtered) (walk truthy wOf hOf factor (sortedL ! i) (drop j sortedL))"
proof (induction "length sortedL - j" arbitrary: i j filtered)
  case 0
  then have d: "drop j sortedL = []" and nj: "\<not> j < length sortedL" by simp_all
  show ?case
  proof (cases "truthy (sortedL ! i)")
    case True
    then show ?thesis using 0 d nj
      by (subst filter_loop.simps) (simp add: and_not_def)
  next
    case False
    then show ?thesis using 0 d filter_loop_falsy[OF assms] by simp
  qed
next
  case (Suc n)
  then have j: "j < length sortedL" by simp
  then have d: "drop j sortedL = sortedL ! j # drop (Suc j) sortedL"
    by (simp add: Cons_nth_drop_Suc)
  have n: "n = length sortedL - (j + 1)" using Suc.hyps(2) by simp
  note IH1 = Suc.hyps(1)[OF n, of j] and IH2 = Suc.hyps(1)[OF n, of i]
  have app: "map_option ((@) (filtered @ [x])) y = map_option ((@) filtered) (map_option ((#) x) y)"
    for x :: 'a and y
    by (cases y) simp_all
  show ?case
    using Suc.prems j IH1 IH2
    by (subst filter_loop.simps) (simp add: d Let_def app)
qed


lemma walk_truthy:
  "truthy a \<Longrightarrow> \<exists>r. walk truthy wOf hOf factor a rest = Some r"
  by (induction rest arbitrary: a) (auto simp: and_not_def)





lemma filter_loop_start:
  assumes "falsy_stays truthy wOf hOf factor"
  shows "filter_loop truthy wOf hOf factor sortedL 0 (Suc 0) [] =
    (case sortedL of [] \<Rightarrow> Some [] | a # rest \<Rightarrow> walk truthy wOf hOf factor a rest)"
proof (cases sortedL)
  case Nil
  then show ?thesis by (subst filter_loop.simps) simp
next
  case (Cons a rest)
  then show ?thesis
    using filter_loop_walk[OF assms, of 0 sortedL 1 "[]"]
    by (cases "walk truthy wOf hOf factor a rest") simp_all
qed


lemma falsy_stays_number: "falsy_stays (\<lambda>x. x \<noteq> 0) (\<lambda>x. x) (\<lambda>x. x) factor"
proof -
  have "\<not> js_lt (js_mul (js_div b (Fin 0)) (js_div b (Fin 0))) (Fin factor)" for b
    by (cases b) (auto simp: of_sign_def sgn_if)
  then show ?thesis
    by (auto simp: falsy_stays_def scale_product_def Let_def)
qed

lemma falsy_stays_Dimension: "falsy_stays (\<lambda>x. True) wOf hOf factor"
  by (simp add: falsy_stays_def)

section \<open>Which lists \<^verbatim>\<open>filterSizes\<close> returns\<close>






text \<open>
  The loop returns for every list of dimensions, and for every list of numbers with a
  positive element (its largest element is then the first reference, and it is truthy).
\<close>

lemma filterSizes_returns:
  assumes "\<exists>x\<in>set L. 0 < x"
  shows "\<exists>R. filterSizes L factor = Some R"
proof -
  let ?S = "sort_key (\<lambda>a. - a) L"
  from assms obtain x where x: "x \<in> set L" "0 < x" by auto
  then have ne: "?S \<noteq> []" by (metis empty_iff set_empty set_sort)
  then obtain a rest where S: "?S = a # rest" by (cases ?S) auto
  have "sorted (map (\<lambda>a. - a) ?S)" by (rule sorted_sort_key)
  with S have "\<forall>y\<in>set ?S. y \<le> a" by auto
  with x have "a \<noteq> 0" by auto
  then obtain R where "walk (\<lambda>x. x \<noteq> 0) (\<lambda>x. x) (\<lambda>x. x) (case factor of None \<Rightarrow> 4 / 5 | Some f \<Rightarrow> f) a rest = Some R"
    using walk_truthy[of "\<lambda>x. x \<noteq> 0" a] by blast
  then show ?thesis by (simp add: filterSizes_def filter_loop_start[OF falsy_stays_number] S)
qed

lemma filterSizes_Dimension_returns: "\<exists>R. filterSizes_Dimension D factor = Some R"
proof (cases "sort_key (\<lambda>a. - (w a * h a)) D")
  case Nil
  then show ?thesis
    by (simp add: filterSizes_Dimension_def filter_loop_start[OF falsy_stays_Dimension])
next
  case (Cons a rest)
  then show ?thesis
    using walk_truthy[of "\<lambda>x. True" a]
    by (simp add: filterSizes_Dimension_def filter_loop_start[OF falsy_stays_Dimension])
qed

section \<open>Evaluating concrete calls\<close>

lemma ceil_rat_numeral [simp]:
  "\<lceil>numeral a / numeral b :: rat\<rceil> = - (- numeral a div numeral b)"
  by (metis ceiling_divide_eq_div of_int_numeral)

lemmas cssValue_eval = cssValue_def Number_def trim_def decimal_def decVal_def digitVal_def
  isDigit_def isDigitDot_def isSpace_def

lemmas deviceWidths_eval = deviceWidths_def cssValue_eval condition_match_def js_ge_def js_le_def
  scaledWidth_def Set_add_def

lemmas filterSizes_eval = filterSizes_def filterSizes_Dimension_def
  filter_loop_start[OF falsy_stays_number] filter_loop_start[OF falsy_stays_Dimension]
  and_not_def scale_product_def

section \<open>The two loops of \<^verbatim>\<open>deviceWidths\<close>\<close>

lemma conditions_loop_True_iff:
  "conditions_loop device cs = Inr True \<longleftrightarrow> (\<forall>c\<in>set cs. condition_holds device c)"
  by (induction cs) (auto simp: condition_holds_def split: prod.splits)

lemma conditions_loop_False:
  assumes "\<forall>c\<in>set cs. snd (cssValue (valueString c)) = ''px''"
    and "\<exists>c\<in>set cs. \<not> condition_holds device c"
  shows "conditions_loop device cs = Inr False"
  using assms by (induction cs) (auto simp: condition_holds_def split: prod.splits)

lemma whichSize_skip:
  assumes "\<forall>p\<in>set pre. conditions_loop device (conditions p) = Inr False"
  shows "whichSize (pre @ rest) device imgWidth =
    whichSize rest device (if pre = [] then imgWidth else Some (width (last pre)))"
  using assms by (induction pre arbitrary: imgWidth) auto

lemma whichSize_match:
  assumes "\<forall>c\<in>set (conditions r). condition_holds device c"
  shows "whichSize (r # post) device imgWidth = Inr (Some (width r))"
  using assms conditions_loop_True_iff[of device "conditions r"] by simp





lemma condition_holds_px:
  assumes "cssValue (valueString c) = (Fin v, ''px'')"
  shows "condition_holds device c \<longleftrightarrow>
     (mediaFeature c = ''min-width'' \<and> v \<le> w device) \<or>
     (mediaFeature c = ''max-width'' \<and> w device \<le> v) \<or>
     (mediaFeature c = ''min-height'' \<and> v \<le> h device) \<or>
     (mediaFeature c = ''max-height'' \<and> h device \<le> v)"
  using assms by (auto simp: condition_holds_def condition_match_def js_ge_def js_le_def)

section \<open>The claims about \<^verbatim>\<open>deviceWidths\<close>\<close>

text \<open>
  Claim C1: when every rule of a non-empty list has a failing condition, the resolver uses
  the fallback width \<^verbatim>\<open>100vw\<close>, so that the widths are \<open>ceil(device.w * d)\<close>.

  \<^verbatim>\<open>deviceWidths\<close> does not: the loop assigns \<^verbatim>\<open>imgWidth = width\<close> before it looks at the
  conditions of a rule and never resets it, so after a scan in which every rule failed
  \<^verbatim>\<open>imgWidth\<close> is the width of the last rule. For the single rule
  \<^verbatim>\<open>(min-width: 680px) 400px\<close> and a device \<open>555\<close> wide, the case of the repository's test
  "uses 100vw as default fallback value if none is provided", the result is \<open>400\<close>, not
  \<open>555\<close>.
\<close>

theorem deviceWidths_no_match_keeps_last_width:
  "deviceWidths [\<lparr>conditions = [\<lparr>mediaFeature = ''min-width'', valueString = ''680px''\<rparr>], width = ''400px''\<rparr>]
     \<lparr>w = 555, h = 600, dppx = [1], flip = False\<rparr> = Inr [Fin 400]"
  by (simp add: deviceWidths_eval)

text \<open>
  Claim C2: the resolver selects the first rule, in list order, all of whose conditions
  hold for the device; a \<^verbatim>\<open>min-\<close> condition holds iff the device's dimension is at least
  the condition's value, a \<^verbatim>\<open>max-\<close> condition iff it is at most the value; a later matching
  rule never overrides an earlier one, so swapping two overlapping rules can change the
  resolved width.

  Here the rules \<open>pre\<close> in front of \<open>r\<close> are rules that the scan passes over: their
  condition values are in \<^verbatim>\<open>px\<close> and each has a condition that does not hold. Then the
  width of \<open>r\<close> is selected whatever follows \<open>r\<close>, and the call returns what it returns for
  \<open>r\<close> alone. The third part spells out \<open>condition_holds\<close> for a value in \<^verbatim>\<open>px\<close>, the
  last part is the swap.
\<close>

theorem first_matching_rule_wins:
  assumes "\<forall>p\<in>set pre. (\<forall>c\<in>set (conditions p). snd (cssValue (valueString c)) = ''px'') \<and>
             (\<exists>c\<in>set (conditions p). \<not> condition_holds device c)"
    and "\<forall>c\<in>set (conditions r). condition_holds device c"
  shows "whichSize (pre @ r # post) device None = Inr (Some (width r)) \<and>
    deviceWidths (pre @ r # post) device = deviceWidths [r] device \<and>
    (\<forall>c v. cssValue (valueString c) = (Fin v, ''px'') \<longrightarrow>
       (condition_holds device c \<longleftrightarrow>
         (mediaFeature c = ''min-width'' \<and> v \<le> w device) \<or>
         (mediaFeature c = ''max-width'' \<and> w device \<le> v) \<or>
         (mediaFeature c = ''min-height'' \<and> v \<le> h device) \<or>
         (mediaFeature c = ''max-height'' \<and> h device \<le> v))) \<and>
    (\<exists>r1 r2 dev.
       (\<forall>c\<in>set (conditions r1). condition_holds dev c) \<and>
       (\<forall>c\<in>set (conditions r2). condition_holds dev c) \<and>
       deviceWidths [r1, r2] dev \<noteq> deviceWidths [r2, r1] dev)"
proof -
  let ?dev = "\<lparr>w = 800, h = 700, dppx = [1], flip = False\<rparr>"
  let ?B = "\<lparr>conditions = [\<lparr>mediaFeature = ''min-width'', valueString = ''680px''\<rparr>], width = ''400px''\<rparr>"
  let ?C = "\<lparr>conditions = [\<lparr>mediaFeature = ''min-width'', valueString = ''600px''\<rparr>], width = ''500px''\<rparr>"
  have "\<forall>c\<in>set (conditions ?B). condition_holds ?dev c"
    by (simp add: condition_holds_def cssValue_eval condition_match_def js_ge_def js_le_def)
  moreover have "\<forall>c\<in>set (conditions ?C). condition_holds ?dev c"
    by (simp add: condition_holds_def cssValue_eval condition_match_def js_ge_def js_le_def)
  moreover have "deviceWidths [?B, ?C] ?dev \<noteq> deviceWidths [?C, ?B] ?dev"
    by (simp add: deviceWidths_eval)
  ultimately have swap: "\<exists>r1 r2 dev.
       (\<forall>c\<in>set (conditions r1). condition_holds dev c) \<and>
       (\<forall>c\<in>set (conditions r2). condition_holds dev c) \<and>
       deviceWidths [r1, r2] dev \<noteq> deviceWidths [r2, r1] dev"
    by blast
  from assms(1) have "\<forall>p\<in>set pre. conditions_loop device (conditions p) = Inr False"
    by (simp add: conditions_loop_False)
  then have "whichSize (pre @ r # post) device None =
      whichSize (r # post) device (if pre = [] then None else Some (width (last pre)))"
    by (rule whichSize_skip)
  then have sel: "whichSize (pre @ r # post) device None = Inr (Some (width r))"
    by (simp only: whichSize_match[OF assms(2)])
  moreover have "whichSize [r] device None = Inr (Some (width r))"
    by (rule whichSize_match[OF assms(2)])
  ultimately have "deviceWidths (pre @ r # post) device = deviceWidths [r] device"
    by (simp add: deviceWidths_def)
  with sel swap show ?thesis using condition_holds_px by blast
qed

text \<open>
  The theorem at work: the first rule fails for a device \<open>800\<close> wide; of the two rules
  behind it, both of which match, the one that comes first decides.
\<close>

theorem first_matching_rule_wins_witness:
  "\<not> condition_holds \<lparr>w = 800, h = 700, dppx = [1], flip = False\<rparr>
       \<lparr>mediaFeature = ''min-width'', valueString = ''1000px''\<rparr> \<and>
   condition_holds \<lparr>w = 800, h = 700, dppx = [1], flip = False\<rparr>
       \<lparr>mediaFeature = ''min-width'', valueString = ''680px''\<rparr> \<and>
   condition_holds \<lparr>w = 800, h = 700, dppx = [1], flip = False\<rparr>
       \<lparr>mediaFeature = ''min-width'', valueString = ''600px''\<rparr> \<and>
   deviceWidths
     [\<lparr>conditions = [\<lparr>mediaFeature = ''min-width'', valueString = ''1000px''\<rparr>], width = ''300px''\<rparr>,
      \<lparr>conditions = [\<lparr>mediaFeature = ''min-width'', valueString = ''680px''\<rparr>], width = ''400px''\<rparr>,
      \<lparr>conditions = [\<lparr>mediaFeature = ''min-width'', valueString = ''600px''\<rparr>], width = ''500px''\<rparr>]
     \<lparr>w = 800, h = 700, dppx = [1], flip = False\<rparr> = Inr [Fin 400] \<and>
   deviceWidths
     [\<lparr>conditions = [\<lparr>mediaFeature = ''min-width'', valueString = ''1000px''\<rparr>], width = ''300px''\<rparr>,
      \<lparr>conditions = [\<lparr>mediaFeature = ''min-width'', valueString = ''600px''\<rparr>], width = ''500px''\<rparr>,
      \<lparr>conditions = [\<lparr>mediaFeature = ''min-width'', valueString = ''680px''\<rparr>], width = ''400px''\<rparr>]
     \<lparr>w = 800, h = 700, dppx = [1], flip = False\<rparr> = Inr [Fin 500]"
proof -
  let ?dev = "\<lparr>w = 800, h = 700, dppx = [1], flip = False\<rparr>"
  let ?A = "\<lparr>conditions = [\<lparr>mediaFeature = ''min-width'', valueString = ''1000px''\<rparr>], width = ''300px''\<rparr>"
  let ?B = "\<lparr>conditions = [\<lparr>mediaFeature = ''min-width'', valueString = ''680px''\<rparr>], width = ''400px''\<rparr>"
  let ?C = "\<lparr>conditions = [\<lparr>mediaFeature = ''min-width'', valueString = ''600px''\<rparr>], width = ''500px''\<rparr>"
  have pre: "\<forall>p\<in>set [?A].
      (\<forall>c\<in>set (conditions p). snd (cssValue (valueString c)) = ''px'') \<and>
      (\<exists>c\<in>set (conditions p). \<not> condition_holds ?dev c)"
    by (simp add: condition_holds_def cssValue_eval condition_match_def js_ge_def js_le_def)
  have B: "\<forall>c\<in>set (conditions ?B). condition_holds ?dev c"
    by (simp add: condition_holds_def cssValue_eval condition_match_def js_ge_def js_le_def)
  have C: "\<forall>c\<in>set (conditions ?C). condition_holds ?dev c"
    by (simp add: condition_holds_def cssValue_eval condition_match_def js_ge_def js_le_def)
  have wB: "deviceWidths [?B] ?dev = Inr [Fin 400]" by (simp add: deviceWidths_eval)
  have wC: "deviceWidths [?C] ?dev = Inr [Fin 500]" by (simp add: deviceWidths_eval)
  from first_matching_rule_wins[OF pre B, of "[?C]"] wB
  have 1: "deviceWidths [?A, ?B, ?C] ?dev = Inr [Fin 400]" by simp
  from first_matching_rule_wins[OF pre C, of "[?B]"] wC
  have 2: "deviceWidths [?A, ?C, ?B] ?dev = Inr [Fin 500]" by simp
  have "\<not> condition_holds ?dev \<lparr>mediaFeature = ''min-width'', valueString = ''1000px''\<rparr>"
    using pre by simp
  moreover have "condition_holds ?dev \<lparr>mediaFeature = ''min-width'', valueString = ''680px''\<rparr>"
    using B by simp
  moreover have "condition_holds ?dev \<lparr>mediaFeature = ''min-width'', valueString = ''600px''\<rparr>"
    using C by simp
  ultimately show ?thesis using 1 2 by blast
qed

text \<open>
  Claim C3: for a device whose rotation flag is true the resolver also evaluates the
  variant with \<open>w\<close> and \<open>h\<close> swapped, and its output includes the widths of that variant; a
  device with the flag false contributes its natural orientation only.

  \<^verbatim>\<open>deviceWidths\<close> never reads \<^verbatim>\<open>device.flip\<close>. For the device of the repository's test
  "handles a flippable device", \<open>500\<close> by \<open>800\<close> with the flag true, it returns the width
  \<open>500\<close> alone; the swapped variant, \<open>800\<close> by \<open>500\<close>, resolves to \<open>400\<close>, which is
  missing.
\<close>

theorem deviceWidths_ignores_flip:
  "deviceWidths [\<lparr>conditions = [\<lparr>mediaFeature = ''min-width'', valueString = ''680px''\<rparr>], width = ''400px''\<rparr>,
                 \<lparr>conditions = [], width = ''500px''\<rparr>]
     \<lparr>w = 500, h = 800, dppx = [1], flip = True\<rparr> = Inr [Fin 500] \<and>
   deviceWidths [\<lparr>conditions = [\<lparr>mediaFeature = ''min-width'', valueString = ''680px''\<rparr>], width = ''400px''\<rparr>,
                 \<lparr>conditions = [], width = ''500px''\<rparr>]
     \<lparr>w = 800, h = 500, dppx = [1], flip = False\<rparr> = Inr [Fin 400]"
  by (simp add: deviceWidths_eval)

text \<open>
  Claim C4: a width in \<^verbatim>\<open>vw\<close> gives \<open>device.w * magnitude / 100\<close>, a width in \<^verbatim>\<open>px\<close> or
  without unit gives the magnitude, and any other unit raises an error that names the unit.

  \<^verbatim>\<open>deviceWidths\<close> checks the unit of a condition value and throws for any unit but \<^verbatim>\<open>px\<close>,
  but the unit of the width is only compared with \<^verbatim>\<open>vw\<close>: the width \<^verbatim>\<open>50em\<close> is taken
  as \<open>50\<close> pixels and the call returns.
\<close>

theorem deviceWidths_accepts_other_width_unit:
  "deviceWidths [\<lparr>conditions = [], width = ''50em''\<rparr>]
     \<lparr>w = 800, h = 700, dppx = [1], flip = False\<rparr> = Inr [Fin 50]"
  by (simp add: deviceWidths_eval)




text \<open>
  Claim C10: with an empty rule list no width is ever assigned, \<^verbatim>\<open>cssValue\<close> is applied to
  \<^verbatim>\<open>undefined\<close> and the call fails with a \<^verbatim>\<open>TypeError\<close> instead of returning widths; there
  is no fallback to \<^verbatim>\<open>100vw\<close>.

  The parse happens inside \<^verbatim>\<open>device.dppx.forEach\<close>: for a device without densities it
  never happens, and the call returns the empty set.
\<close>

theorem deviceWidths_no_rules_counterexample:
  "deviceWidths [] \<lparr>w = 800, h = 700, dppx = [], flip = False\<rparr> = Inr []"
  by (simp add: deviceWidths_def)

text \<open>
  Claim C10 as amended: with an empty rule list the call fails with a \<^verbatim>\<open>TypeError\<close> for
  every device that has at least one density, and returns the empty set for a device that
  has none.
\<close>

theorem deviceWidths_no_rules:
  "(dppx device \<noteq> [] \<longrightarrow> deviceWidths [] device = Inl TypeError) \<and>
   (dppx device = [] \<longrightarrow> deviceWidths [] device = Inr [])"
  by (cases "dppx device") (simp_all add: deviceWidths_def)

theorem deviceWidths_no_rules_witness:
  "dppx \<lparr>w = 800, h = 700, dppx = [2, 1], flip = False\<rparr> \<noteq> [] \<and>
   deviceWidths [] \<lparr>w = 800, h = 700, dppx = [2, 1], flip = False\<rparr> = Inl TypeError"
  using deviceWidths_no_rules[of "\<lparr>w = 800, h = 700, dppx = [2, 1], flip = False\<rparr>"] by simp

section \<open>The claims about \<^verbatim>\<open>filterSizes\<close>\<close>

text \<open>
  Claim C6: \<^verbatim>\<open>filterSizes([200,250,380,800,801,1000,1050,1100,1440,1900,2000])\<close> with the
  default factor \<open>0.8\<close> returns \<open>[2000,1440,1100,801,380,250,200]\<close>.
\<close>

theorem filterSizes_sample_widths:
  "filterSizes [200, 250, 380, 800, 801, 1000, 1050, 1100, 1440, 1900, 2000] None =
     Some [2000, 1440, 1100, 801, 380, 250, 200]"
  by (simp add: filterSizes_eval)

text \<open>
  Claim C7: every top-level operation terminates on every input.

  \<^verbatim>\<open>filterSizes([0])\<close> does not return. The loop leaves through \<^verbatim>\<open>if (a && !b)\<close>, which
  is meant to see the end of the list (\<^verbatim>\<open>b\<close> undefined) but asks for a truthy \<^verbatim>\<open>a\<close>, and
  \<open>0\<close> is falsy; the scale is \<^verbatim>\<open>NaN\<close>, so only \<^verbatim>\<open>j++\<close> runs, and \<^verbatim>\<open>i < sorted.length\<close>
  stays true.
\<close>

theorem filterSizes_zero_never_returns: "filterSizes [0] factor = None"
  using filter_loop_falsy[OF falsy_stays_number, of 0 "[0]"]
  by (simp add: filterSizes_def)






end
